theory Spec2Isabelle
  imports Complex_Main
begin

section \<open>Transaction reconciliation (streamlit\_app.py)\<close>

text \<open>
  A shallow embedding of \<^verbatim>\<open>reconcile_transactions\<close>: the normalisation of the two
  uploaded tables (lines 72 to 77) and the matching loops (lines 79 to 125).

  Conventions of the model.
  \<^item> A finite float is named by the decimal that Python prints for it: a sign, the
    significant digits and the position of the decimal point, as the float-to-string
    conversion delivers them. Subtraction, absolute value, division and the comparisons
    with \<^verbatim>\<open>0.01\<close>, \<^verbatim>\<open>0\<close> and \<^verbatim>\<open>0.05\<close> are
    taken on the exact rational value of that decimal; binary rounding is not modelled.
  \<^item> The missing value of pandas is \<open>NaN\<close>: every ordered comparison with it is
    false and \<^verbatim>\<open>!=\<close> with it is true.
  \<^item> Strings are byte strings; \<^verbatim>\<open>lower\<close>, \<^verbatim>\<open>strip\<close> and the
    character class \<^verbatim>\<open>\d\<close> are taken on ASCII.
  \<^item> A table is rectangular: every row has one cell per column. A numeric column is a
    column of floats; integer columns are not told apart.
\<close>

subsection \<open>Values and tables\<close>

text \<open>
  A decimal \<open>0.d\<^sub>1d\<^sub>2\<dots>d\<^sub>n \<times> 10\<^sup>p\<close>: the digits \<open>d\<^sub>1\<dots>d\<^sub>n\<close> are the characters
  of \<open>digs\<close>, \<open>p\<close> is \<open>decpt\<close>, and \<open>sign\<close> holds for a negative number. Zero
  has no digits and keeps its sign.
\<close>

record dec =
  sign :: bool
  digs :: string
  decpt :: int

datatype float64 = Fin dec | NaN

datatype cell = Str string | Float float64

record frame =
  columns :: "string list"
  rows :: "cell list list"

text \<open>
  A row as \<^verbatim>\<open>iterrows\<close> yields it after normalisation: \<open>amount\<close> is
  \<^verbatim>\<open>row['amount']\<close>, \<open>row\<close> the cells that \<^verbatim>\<open>to_dict()\<close> copies.
\<close>

record txn =
  amount :: float64
  row :: "cell list"

record ledger =
  names :: "string list"
  txns :: "txn list"

datatype error = KeyError | AttributeError | ZeroDivisionError

record match_pair =
  opera :: txn
  pos :: txn
  matched_amount :: float64

record mismatch_pair =
  mis_opera :: txn
  mis_pos :: txn
  difference :: rat

record results =
  matched :: "match_pair list"
  unmatched_opera :: "txn list"
  unmatched_pos :: "txn list"
  amount_mismatch :: "mismatch_pair list"

subsection \<open>Strings: column names and the text of an amount\<close>

definition lower_char :: "char \<Rightarrow> char" where
  "lower_char c =
     (let n = (of_char c :: nat) in if 65 \<le> n \<and> n \<le> 90 then char_of (n + 32) else c)"

definition lower :: "string \<Rightarrow> string" where
  "lower s = map lower_char s"

definition is_space :: "char \<Rightarrow> bool" where
  "is_space c =
     (let n = (of_char c :: nat) in (9 \<le> n \<and> n \<le> 13) \<or> (28 \<le> n \<and> n \<le> 32))"

definition strip :: "string \<Rightarrow> string" where
  "strip s = rev (dropWhile is_space (rev (dropWhile is_space s)))"

definition is_digit :: "char \<Rightarrow> bool" where
  "is_digit c = (let n = (of_char c :: nat) in 48 \<le> n \<and> n \<le> 57)"

text \<open>\<^verbatim>\<open>str.replace('[^\d.-]', '', regex=True)\<close>: only digits, dots and minus signs stay.\<close>

definition keep_char :: "char \<Rightarrow> bool" where
  "keep_char c = (is_digit c \<or> c = CHR ''.'' \<or> c = CHR ''-'')"

definition clean :: "string \<Rightarrow> string" where
  "clean s = filter keep_char s"

subsection \<open>Floats as text and back\<close>

fun show_nat :: "nat \<Rightarrow> string" where
  "show_nat n =
     (if n < 10 then [char_of (48 + n)] else show_nat (n div 10) @ [char_of (48 + n mod 10)])"

text \<open>
  The exponent of the scientific notation is \<open>decpt - 1\<close>, printed with a sign and at
  least two digits.
\<close>

definition show_exp :: "int \<Rightarrow> string" where
  "show_exp e =
     (let s = show_nat (nat \<bar>e\<bar>)
      in (if e < 0 then ''-'' else ''+'') @ (if length s < 2 then CHR ''0'' # s else s))"

text \<open>
  \<^verbatim>\<open>str\<close> of a float: scientific notation when the decimal point lies more than
  16 places right of the first digit or 4 or more places left of it, positional notation
  otherwise, with \<^verbatim>\<open>.0\<close> added to a whole number.
\<close>

definition repr :: "dec \<Rightarrow> string" where
  "repr d =
     (let ds = digs d; n = int (length ds); p = decpt d
      in (if sign d then ''-'' else '''') @
         (if ds = [] then ''0.0''
          else if p > 16 \<or> p \<le> - 4 then
            hd ds # (if tl ds = [] then [] else CHR ''.'' # tl ds) @ ''e'' @ show_exp (p - 1)
          else if p \<le> 0 then ''0.'' @ replicate (nat (- p)) CHR ''0'' @ ds
          else if n \<le> p then ds @ replicate (nat (p - n)) CHR ''0'' @ ''.0''
          else take (nat p) ds @ ''.'' @ drop (nat p) ds))"

text \<open>\<^verbatim>\<open>astype(str)\<close> on one cell.\<close>

fun astype_str :: "cell \<Rightarrow> string" where
  "astype_str (Str s) = s"
| "astype_str (Float NaN) = ''nan''"
| "astype_str (Float (Fin d)) = repr d"

text \<open>
  The float denoted by an integer part and a fraction part: leading and trailing zeros
  carry no information.
\<close>

definition mk_dec :: "bool \<Rightarrow> string \<Rightarrow> string \<Rightarrow> dec" where
  "mk_dec sg ip fp =
     (let sig = dropWhile (\<lambda>c. c = CHR ''0'') (ip @ fp);
          lead = length (ip @ fp) - length sig;
          ds = rev (dropWhile (\<lambda>c. c = CHR ''0'') (rev sig))
      in \<lparr>sign = sg, digs = ds,
          decpt = (if ds = [] then 0 else int (length ip) - int lead)\<rparr>)"

text \<open>
  \<^verbatim>\<open>pd.to_numeric(..., errors='coerce')\<close> on a cleaned text: an optional minus sign,
  digits, an optional dot, digits, with a digit somewhere; the empty text and everything
  else become \<open>NaN\<close>.
\<close>

definition to_numeric :: "string \<Rightarrow> float64" where
  "to_numeric s =
     (let sg = (s \<noteq> [] \<and> hd s = CHR ''-'');
          u = (if sg then tl s else s);
          ip = takeWhile is_digit u;
          r = dropWhile is_digit u
      in if r = [] then (if ip = [] then NaN else Fin (mk_dec sg ip []))
         else if hd r = CHR ''.'' \<and> list_all is_digit (tl r) \<and> \<not> (ip = [] \<and> tl r = [])
         then Fin (mk_dec sg ip (tl r))
         else NaN)"

definition coerce :: "cell \<Rightarrow> float64" where
  "coerce c = to_numeric (clean (astype_str c))"

subsection \<open>Normalisation (lines 72 to 77)\<close>

definition positions :: "string \<Rightarrow> string list \<Rightarrow> nat list" where
  "positions k cols = filter (\<lambda>i. cols ! i = k) [0..<length cols]"

text \<open>
  The column names are lower-cased, then stripped. \<^verbatim>\<open>df['amount']\<close> raises
  \<^verbatim>\<open>KeyError\<close> when no column has that name; when several have it, it is a table,
  which has no \<^verbatim>\<open>.str\<close>: \<^verbatim>\<open>AttributeError\<close>.
\<close>

definition normalize_frame :: "frame \<Rightarrow> error + ledger" where
  "normalize_frame df =
     (let cols = map (\<lambda>c. strip (lower c)) (columns df)
      in case positions ''amount'' cols of
           [] \<Rightarrow> Inl KeyError
         | [i] \<Rightarrow>
             Inr \<lparr>names = cols,
                  txns = map (\<lambda>r. let a = coerce (r ! i)
                                  in \<lparr>amount = a, row = r[i := Float a]\<rparr>) (rows df)\<rparr>
         | _ \<Rightarrow> Inl AttributeError)"

text \<open>The table that a normalised ledger is.\<close>

definition as_frame :: "ledger \<Rightarrow> frame" where
  "as_frame l = \<lparr>columns = names l, rows = map row (txns l)\<rparr>"

subsection \<open>Arithmetic on amounts\<close>

definition digit_val :: "char \<Rightarrow> nat" where
  "digit_val c = of_char c - 48"

definition digits_val :: "string \<Rightarrow> nat" where
  "digits_val ds = foldl (\<lambda>a c. 10 * a + digit_val c) 0 ds"

definition val :: "dec \<Rightarrow> rat" where
  "val d =
     (let m = of_nat (digits_val (digs d)); k = decpt d - int (length (digs d));
          mag = (if 0 \<le> k then m * 10 ^ nat k else m / 10 ^ nat (- k))
      in if sign d then - mag else mag)"

text \<open>\<^verbatim>\<open>column != y\<close> on one element of the column.\<close>

fun differs :: "float64 \<Rightarrow> float64 \<Rightarrow> bool" where
  "differs (Fin x) (Fin y) = (val x \<noteq> val y)"
| "differs _ _ = True"

subsection \<open>The matching loops (lines 79 to 125)\<close>

text \<open>
  Line 96: \<^verbatim>\<open>abs(opera_row['amount'] - pos_row['amount']) < 0.01\<close>, false when
  either amount is \<open>NaN\<close>.
\<close>

fun close :: "float64 \<Rightarrow> float64 \<Rightarrow> bool" where
  "close (Fin x) (Fin y) = (\<bar>val x - val y\<bar> < 1 / 100)"
| "close _ _ = False"

text \<open>Lines 95 to 108: the first row of the POS table that matches, if any.\<close>

fun exact_match :: "txn \<Rightarrow> txn list \<Rightarrow> txn option" where
  "exact_match a [] = None"
| "exact_match a (b # bs) =
     (if close (amount a) (amount b) then Some b else exact_match a bs)"

text \<open>
  Lines 113 and 114: \<^verbatim>\<open>difference = abs(opera_row['amount'] - pos_row['amount'])\<close>
  and \<^verbatim>\<open>difference > 0 and difference/opera_row['amount'] < 0.05\<close>. The result is
  the difference when the test holds. The division is reached only when the difference is
  positive. A zero divisor raises \<^verbatim>\<open>ZeroDivisionError\<close> when both operands are
  Python floats (\<open>py\<close>); on numpy scalars the quotient is an infinity of the
  divisor's sign.
\<close>

fun similar :: "bool \<Rightarrow> float64 \<Rightarrow> float64 \<Rightarrow> error + rat option" where
  "similar py (Fin x) (Fin y) =
     (let d = \<bar>val x - val y\<bar>
      in if 0 < d then
           (if val x = 0 then
              (if py then Inl ZeroDivisionError else Inr (if sign x then Some d else None))
            else Inr (if d / val x < 5 / 100 then Some d else None))
         else Inr None)"
| "similar py _ _ = Inr None"

text \<open>Lines 112 to 119: one entry for every row of the POS table that is similar.\<close>

fun similar_rows :: "bool \<Rightarrow> txn \<Rightarrow> txn list \<Rightarrow> error + mismatch_pair list" where
  "similar_rows py a [] = Inr []"
| "similar_rows py a (b # bs) =
     (case similar py (amount a) (amount b) of
        Inl e \<Rightarrow> Inl e
      | Inr h \<Rightarrow>
          (case similar_rows py a bs of
             Inl e \<Rightarrow> Inl e
           | Inr ms \<Rightarrow>
               Inr (case h of
                      None \<Rightarrow> ms
                    | Some d \<Rightarrow> \<lparr>mis_opera = a, mis_pos = b, difference = d\<rparr> # ms)))"

text \<open>
  Lines 92 to 119: the loop over the Opera rows. The state is the result dictionary with
  the two working copies in the places they are finally stored at.
\<close>

fun match_rows :: "bool \<Rightarrow> txn list \<Rightarrow> txn list \<Rightarrow> results \<Rightarrow> error + results" where
  "match_rows py [] ps st = Inr st"
| "match_rows py (a # as) ps st =
     (case exact_match a ps of
        Some b \<Rightarrow>
          match_rows py as ps
            (st\<lparr>matched := matched st @ [\<lparr>opera = a, pos = b, matched_amount = amount a\<rparr>],
                unmatched_opera := filter (\<lambda>r. differs (amount r) (amount a)) (unmatched_opera st),
                unmatched_pos := filter (\<lambda>r. differs (amount r) (amount b)) (unmatched_pos st)\<rparr>)
      | None \<Rightarrow>
          (case similar_rows py a ps of
             Inl e \<Rightarrow> Inl e
           | Inr ms \<Rightarrow> match_rows py as ps (st\<lparr>amount_mismatch := amount_mismatch st @ ms\<rparr>)))"

text \<open>
  \<^verbatim>\<open>iterrows\<close> builds each row from the values of the whole table: Python objects
  when some column holds text, numpy scalars when every column is numeric.
\<close>

definition is_text :: "cell \<Rightarrow> bool" where
  "is_text c = (case c of Str s \<Rightarrow> True | Float x \<Rightarrow> False)"

definition object_rows :: "ledger \<Rightarrow> bool" where
  "object_rows l = list_ex (\<lambda>t. list_ex is_text (row t)) (txns l)"

definition reconcile :: "ledger \<Rightarrow> ledger \<Rightarrow> error + results" where
  "reconcile opera_df pos_df =
     match_rows (object_rows opera_df \<and> object_rows pos_df) (txns opera_df) (txns pos_df)
       \<lparr>matched = [], unmatched_opera = txns opera_df, unmatched_pos = txns pos_df,
        amount_mismatch = []\<rparr>"

definition reconcile_transactions :: "frame \<Rightarrow> frame \<Rightarrow> error + results" where
  "reconcile_transactions opera_df pos_df =
     (case normalize_frame opera_df of
        Inl e \<Rightarrow> Inl e
      | Inr a \<Rightarrow> (case normalize_frame pos_df of Inl e \<Rightarrow> Inl e | Inr b \<Rightarrow> reconcile a b))"

subsection \<open>Amounts that print without an exponent\<close>

text \<open>
  A float named by its canonical decimal: digits only, no leading and no trailing zero,
  and the point at 0 for zero. \<^verbatim>\<open>to_numeric\<close> delivers canonical decimals.
\<close>

definition canonical :: "dec \<Rightarrow> bool" where
  "canonical d =
     (list_all is_digit (digs d) \<and>
      (if digs d = [] then decpt d = 0
       else hd (digs d) \<noteq> CHR ''0'' \<and> last (digs d) \<noteq> CHR ''0''))"

text \<open>
  The amounts that \<^verbatim>\<open>astype(str)\<close> writes in positional notation: \<open>NaN\<close>, zero,
  and the floats from \<^verbatim>\<open>0.0001\<close> up to, not including, \<^verbatim>\<open>1e16\<close> in
  absolute value.
\<close>

fun prints_positional :: "float64 \<Rightarrow> bool" where
  "prints_positional NaN = True"
| "prints_positional (Fin d) = (digs d = [] \<or> (- 4 < decpt d \<and> decpt d \<le> 16))"

section \<open>Properties of the matching loops\<close>

subsection \<open>The exact pass\<close>

lemma exact_match_Some:
  "exact_match a ps = Some b \<Longrightarrow> b \<in> set ps \<and> close (amount a) (amount b)"
  by (induction ps) (auto split: if_splits)

lemma exact_match_None:
  "exact_match a ps = None \<longleftrightarrow> (\<forall>b\<in>set ps. \<not> close (amount a) (amount b))"
  by (induction ps) auto

lemma close_finite: "close x y \<Longrightarrow> \<exists>p q. x = Fin p \<and> y = Fin q"
  by (cases x; cases y) auto

lemma exact_match_skips_NaN:
  "exact_match a (filter (\<lambda>t. amount t \<noteq> NaN) ps) = None \<longleftrightarrow> exact_match a ps = None"
  by (induction ps) (auto split: if_splits)

subsection \<open>The similar pass\<close>

lemma similar_finite: "similar py x y = Inr (Some d) \<Longrightarrow> \<exists>p q. x = Fin p \<and> y = Fin q"
  by (cases x; cases y) auto

lemma similar_raises:
  "isl (similar py x y) \<longleftrightarrow>
     py \<and> (\<exists>p q. x = Fin p \<and> y = Fin q \<and> val p = 0 \<and> val q \<noteq> 0)"
  by (cases x; cases y) (auto simp: Let_def)

lemma similar_rows_raises:
  "isl (similar_rows py a ps) \<longleftrightarrow> (\<exists>b\<in>set ps. isl (similar py (amount a) (amount b)))"
  by (induction ps) (auto split: sum.splits)

lemma similar_rows_set:
  "similar_rows py a ps = Inr ms \<Longrightarrow>
   set ms = {\<lparr>mis_opera = a, mis_pos = b, difference = d\<rparr> | b d.
               b \<in> set ps \<and> similar py (amount a) (amount b) = Inr (Some d)}"
proof (induction ps arbitrary: ms)
  case Nil
  then show ?case by simp
next
  case (Cons b bs)
  from Cons.prems obtain h ms' where h: "similar py (amount a) (amount b) = Inr h"
    and ms': "similar_rows py a bs = Inr ms'"
    and ms: "ms = (case h of None \<Rightarrow> ms'
                   | Some d \<Rightarrow> \<lparr>mis_opera = a, mis_pos = b, difference = d\<rparr> # ms')"
    by (auto split: sum.splits)
  note IH = Cons.IH [OF ms']
  show ?case
  proof (cases h)
    case None
    with h ms IH show ?thesis by auto
  next
    case (Some d)
    with h ms IH show ?thesis by auto
  qed
qed

subsection \<open>The loop over the Opera rows\<close>

text \<open>One iteration, read backwards from a run that returned.\<close>

lemma match_rows_step:
  assumes "match_rows py (a # as) ps st = Inr r"
  obtains (hit) b where "exact_match a ps = Some b"
      and "match_rows py as ps
             (st\<lparr>matched := matched st @ [\<lparr>opera = a, pos = b, matched_amount = amount a\<rparr>],
                 unmatched_opera :=
                   filter (\<lambda>t. differs (amount t) (amount a)) (unmatched_opera st),
                 unmatched_pos :=
                   filter (\<lambda>t. differs (amount t) (amount b)) (unmatched_pos st)\<rparr>) = Inr r"
    | (miss) ms where "exact_match a ps = None" and "similar_rows py a ps = Inr ms"
      and "match_rows py as ps (st\<lparr>amount_mismatch := amount_mismatch st @ ms\<rparr>) = Inr r"
  using assms by (cases "exact_match a ps") (auto split: sum.splits)

lemma match_rows_matched:
  "match_rows py as ps st = Inr r \<Longrightarrow>
   set (matched r) = set (matched st) \<union>
     {\<lparr>opera = a, pos = b, matched_amount = amount a\<rparr> | a b.
        a \<in> set as \<and> exact_match a ps = Some b}"
proof (induction as arbitrary: st)
  case Nil
  then show ?case by simp
next
  case (Cons a as)
  from Cons.prems show ?case
  proof (cases rule: match_rows_step)
    case (hit b)
    from Cons.IH [OF hit(2)] hit(1) show ?thesis by auto
  next
    case (miss ms)
    from Cons.IH [OF miss(3)] miss(1) show ?thesis by auto
  qed
qed

lemma match_rows_mismatch:
  "match_rows py as ps st = Inr r \<Longrightarrow>
   set (amount_mismatch r) = set (amount_mismatch st) \<union>
     {\<lparr>mis_opera = a, mis_pos = b, difference = d\<rparr> | a b d.
        a \<in> set as \<and> exact_match a ps = None \<and> b \<in> set ps \<and>
        similar py (amount a) (amount b) = Inr (Some d)}"
proof (induction as arbitrary: st)
  case Nil
  then show ?case by simp
next
  case (Cons a as)
  from Cons.prems show ?case
  proof (cases rule: match_rows_step)
    case (hit b)
    from Cons.IH [OF hit(2)] hit(1) show ?thesis by auto
  next
    case (miss ms)
    from Cons.IH [OF miss(3)] miss(1) similar_rows_set [OF miss(2)] show ?thesis by auto
  qed
qed

lemma match_rows_unmatched:
  "match_rows py as ps st = Inr r \<Longrightarrow>
   unmatched_opera r =
     filter (\<lambda>t. \<forall>a\<in>set as. \<forall>b. exact_match a ps = Some b \<longrightarrow> differs (amount t) (amount a))
       (unmatched_opera st) \<and>
   unmatched_pos r =
     filter (\<lambda>t. \<forall>a\<in>set as. \<forall>b. exact_match a ps = Some b \<longrightarrow> differs (amount t) (amount b))
       (unmatched_pos st)"
proof (induction as arbitrary: st)
  case Nil
  then show ?case by simp
next
  case (Cons a as)
  from Cons.prems show ?case
  proof (cases rule: match_rows_step)
    case (hit b)
    from Cons.IH [OF hit(2)] hit(1) show ?thesis by (auto intro!: filter_cong)
  next
    case (miss ms)
    from Cons.IH [OF miss(3)] miss(1) show ?thesis by simp
  qed
qed

text \<open>
  The run raises exactly when Python floats are divided and an Opera row of amount zero
  with no exact match meets a POS row of another finite amount.
\<close>

lemma match_rows_raises:
  "isl (match_rows py as ps st) \<longleftrightarrow>
     py \<and> (\<exists>a\<in>set as. \<exists>b\<in>set ps. \<exists>p q. exact_match a ps = None \<and>
             amount a = Fin p \<and> amount b = Fin q \<and> val p = 0 \<and> val q \<noteq> 0)"
proof -
  have "isl (match_rows py as ps st) \<longleftrightarrow>
          (\<exists>a\<in>set as. exact_match a ps = None \<and> isl (similar_rows py a ps))"
    by (induction as arbitrary: st) (auto split: option.splits sum.splits)
  then show ?thesis
    unfolding similar_rows_raises similar_raises by blast
qed

section \<open>The claims about the matching loops\<close>

text \<open>
  C1, as the code has it. For the Opera table \<^verbatim>\<open>[{amount: 100.00, id: "A1"}]\<close> and the
  POS table \<^verbatim>\<open>[{amount: 104.00, id: "B1"}]\<close> the run returns no exact match and one
  amount mismatch, the pair (A1, B1) with difference 4; both rows stay in the unmatched
  lists, since only an exact match removes rows from them.
\<close>

theorem scenario_mismatch:
  "reconcile_transactions
     \<lparr>columns = [''amount'', ''id''], rows = [[Float (Fin \<lparr>sign = False, digs = ''1'', decpt = 3\<rparr>), Str ''A1'']]\<rparr>
     \<lparr>columns = [''amount'', ''id''], rows = [[Float (Fin \<lparr>sign = False, digs = ''104'', decpt = 3\<rparr>), Str ''B1'']]\<rparr> =
   Inr \<lparr>matched = [], unmatched_opera = [\<lparr>amount = Fin \<lparr>sign = False, digs = ''1'', decpt = 3\<rparr>, row = [Float (Fin \<lparr>sign = False, digs = ''1'', decpt = 3\<rparr>), Str ''A1'']\<rparr>], unmatched_pos = [\<lparr>amount = Fin \<lparr>sign = False, digs = ''104'', decpt = 3\<rparr>, row = [Float (Fin \<lparr>sign = False, digs = ''104'', decpt = 3\<rparr>), Str ''B1'']\<rparr>], amount_mismatch = [\<lparr>mis_opera = \<lparr>amount = Fin \<lparr>sign = False, digs = ''1'', decpt = 3\<rparr>, row = [Float (Fin \<lparr>sign = False, digs = ''1'', decpt = 3\<rparr>), Str ''A1'']\<rparr>, mis_pos = \<lparr>amount = Fin \<lparr>sign = False, digs = ''104'', decpt = 3\<rparr>, row = [Float (Fin \<lparr>sign = False, digs = ''104'', decpt = 3\<rparr>), Str ''B1'']\<rparr>, difference = 4\<rparr>]\<rparr>"
  by code_simp

text \<open>
  C1 as stated asks for both unmatched lists to be empty on that input. The run returns,
  and neither list is empty.
\<close>

theorem scenario_mismatch_unmatched_kept:
  "\<not> isl (reconcile_transactions
     \<lparr>columns = [''amount'', ''id''], rows = [[Float (Fin \<lparr>sign = False, digs = ''1'', decpt = 3\<rparr>), Str ''A1'']]\<rparr>
     \<lparr>columns = [''amount'', ''id''], rows = [[Float (Fin \<lparr>sign = False, digs = ''104'', decpt = 3\<rparr>), Str ''B1'']]\<rparr>) \<and>
   unmatched_opera (projr (reconcile_transactions
     \<lparr>columns = [''amount'', ''id''], rows = [[Float (Fin \<lparr>sign = False, digs = ''1'', decpt = 3\<rparr>), Str ''A1'']]\<rparr>
     \<lparr>columns = [''amount'', ''id''], rows = [[Float (Fin \<lparr>sign = False, digs = ''104'', decpt = 3\<rparr>), Str ''B1'']]\<rparr>)) \<noteq> [] \<and>
   unmatched_pos (projr (reconcile_transactions
     \<lparr>columns = [''amount'', ''id''], rows = [[Float (Fin \<lparr>sign = False, digs = ''1'', decpt = 3\<rparr>), Str ''A1'']]\<rparr>
     \<lparr>columns = [''amount'', ''id''], rows = [[Float (Fin \<lparr>sign = False, digs = ''104'', decpt = 3\<rparr>), Str ''B1'']]\<rparr>)) \<noteq> []"
  by code_simp





text \<open>
  C4. An exact match of a with b removes from the working copy of the Opera table every
  row whose amount equals that of a, and from the working copy of the POS table every row
  whose amount equals that of b. The unmatched lists of a run that returns are the two
  tables without the rows removed this way for some Opera row that found an exact match.
\<close>

theorem removal_by_amount:
  "(exact_match a ps = Some b \<longrightarrow>
      match_rows py (a # as) ps st =
      match_rows py as ps
        (st\<lparr>matched := matched st @ [\<lparr>opera = a, pos = b, matched_amount = amount a\<rparr>],
            unmatched_opera := filter (\<lambda>t. differs (amount t) (amount a)) (unmatched_opera st),
            unmatched_pos := filter (\<lambda>t. differs (amount t) (amount b)) (unmatched_pos st)\<rparr>)) \<and>
   (reconcile opera_df pos_df = Inr r \<longrightarrow>
      unmatched_opera r =
        filter (\<lambda>t. \<forall>a\<in>set (txns opera_df). \<forall>b. exact_match a (txns pos_df) = Some b \<longrightarrow>
                  differs (amount t) (amount a)) (txns opera_df) \<and>
      unmatched_pos r =
        filter (\<lambda>t. \<forall>a\<in>set (txns opera_df). \<forall>b. exact_match a (txns pos_df) = Some b \<longrightarrow>
                  differs (amount t) (amount b)) (txns pos_df))"
proof (intro conjI impI)
  assume "reconcile opera_df pos_df = Inr r"
  from match_rows_unmatched [OF this [unfolded reconcile_def]]
  show "unmatched_opera r =
        filter (\<lambda>t. \<forall>a\<in>set (txns opera_df). \<forall>b. exact_match a (txns pos_df) = Some b \<longrightarrow>
                  differs (amount t) (amount a)) (txns opera_df)"
    and "unmatched_pos r =
        filter (\<lambda>t. \<forall>a\<in>set (txns opera_df). \<forall>b. exact_match a (txns pos_df) = Some b \<longrightarrow>
                  differs (amount t) (amount b)) (txns pos_df)"
    by simp_all
qed simp

theorem removal_by_amount_witness:
  "exact_match \<lparr>amount = Fin \<lparr>sign = False, digs = ''5'', decpt = 2\<rparr>, row = [Float (Fin \<lparr>sign = False, digs = ''5'', decpt = 2\<rparr>), Str ''A1'']\<rparr>
     [\<lparr>amount = Fin \<lparr>sign = False, digs = ''5'', decpt = 2\<rparr>, row = [Float (Fin \<lparr>sign = False, digs = ''5'', decpt = 2\<rparr>), Str ''B1'']\<rparr>, \<lparr>amount = Fin \<lparr>sign = False, digs = ''5'', decpt = 2\<rparr>, row = [Float (Fin \<lparr>sign = False, digs = ''5'', decpt = 2\<rparr>), Str ''B2'']\<rparr>, \<lparr>amount = Fin \<lparr>sign = False, digs = ''8'', decpt = 2\<rparr>, row = [Float (Fin \<lparr>sign = False, digs = ''8'', decpt = 2\<rparr>), Str ''B3'']\<rparr>] =
   Some \<lparr>amount = Fin \<lparr>sign = False, digs = ''5'', decpt = 2\<rparr>, row = [Float (Fin \<lparr>sign = False, digs = ''5'', decpt = 2\<rparr>), Str ''B1'']\<rparr> \<and>
   reconcile
     \<lparr>names = [''amount'', ''id''], txns = [\<lparr>amount = Fin \<lparr>sign = False, digs = ''5'', decpt = 2\<rparr>, row = [Float (Fin \<lparr>sign = False, digs = ''5'', decpt = 2\<rparr>), Str ''A1'']\<rparr>, \<lparr>amount = Fin \<lparr>sign = False, digs = ''5'', decpt = 2\<rparr>, row = [Float (Fin \<lparr>sign = False, digs = ''5'', decpt = 2\<rparr>), Str ''A2'']\<rparr>, \<lparr>amount = Fin \<lparr>sign = False, digs = ''7'', decpt = 2\<rparr>, row = [Float (Fin \<lparr>sign = False, digs = ''7'', decpt = 2\<rparr>), Str ''A3'']\<rparr>]\<rparr>
     \<lparr>names = [''amount'', ''id''], txns = [\<lparr>amount = Fin \<lparr>sign = False, digs = ''5'', decpt = 2\<rparr>, row = [Float (Fin \<lparr>sign = False, digs = ''5'', decpt = 2\<rparr>), Str ''B1'']\<rparr>, \<lparr>amount = Fin \<lparr>sign = False, digs = ''5'', decpt = 2\<rparr>, row = [Float (Fin \<lparr>sign = False, digs = ''5'', decpt = 2\<rparr>), Str ''B2'']\<rparr>, \<lparr>amount = Fin \<lparr>sign = False, digs = ''8'', decpt = 2\<rparr>, row = [Float (Fin \<lparr>sign = False, digs = ''8'', decpt = 2\<rparr>), Str ''B3'']\<rparr>]\<rparr> =
   Inr \<lparr>matched = [\<lparr>opera = \<lparr>amount = Fin \<lparr>sign = False, digs = ''5'', decpt = 2\<rparr>, row = [Float (Fin \<lparr>sign = False, digs = ''5'', decpt = 2\<rparr>), Str ''A1'']\<rparr>, pos = \<lparr>amount = Fin \<lparr>sign = False, digs = ''5'', decpt = 2\<rparr>, row = [Float (Fin \<lparr>sign = False, digs = ''5'', decpt = 2\<rparr>), Str ''B1'']\<rparr>, matched_amount = Fin \<lparr>sign = False, digs = ''5'', decpt = 2\<rparr>\<rparr>, \<lparr>opera = \<lparr>amount = Fin \<lparr>sign = False, digs = ''5'', decpt = 2\<rparr>, row = [Float (Fin \<lparr>sign = False, digs = ''5'', decpt = 2\<rparr>), Str ''A2'']\<rparr>, pos = \<lparr>amount = Fin \<lparr>sign = False, digs = ''5'', decpt = 2\<rparr>, row = [Float (Fin \<lparr>sign = False, digs = ''5'', decpt = 2\<rparr>), Str ''B1'']\<rparr>, matched_amount = Fin \<lparr>sign = False, digs = ''5'', decpt = 2\<rparr>\<rparr>], unmatched_opera = [\<lparr>amount = Fin \<lparr>sign = False, digs = ''7'', decpt = 2\<rparr>, row = [Float (Fin \<lparr>sign = False, digs = ''7'', decpt = 2\<rparr>), Str ''A3'']\<rparr>], unmatched_pos = [\<lparr>amount = Fin \<lparr>sign = False, digs = ''8'', decpt = 2\<rparr>, row = [Float (Fin \<lparr>sign = False, digs = ''8'', decpt = 2\<rparr>), Str ''B3'']\<rparr>], amount_mismatch = []\<rparr> \<and>
   unmatched_opera \<lparr>matched = [\<lparr>opera = \<lparr>amount = Fin \<lparr>sign = False, digs = ''5'', decpt = 2\<rparr>, row = [Float (Fin \<lparr>sign = False, digs = ''5'', decpt = 2\<rparr>), Str ''A1'']\<rparr>, pos = \<lparr>amount = Fin \<lparr>sign = False, digs = ''5'', decpt = 2\<rparr>, row = [Float (Fin \<lparr>sign = False, digs = ''5'', decpt = 2\<rparr>), Str ''B1'']\<rparr>, matched_amount = Fin \<lparr>sign = False, digs = ''5'', decpt = 2\<rparr>\<rparr>, \<lparr>opera = \<lparr>amount = Fin \<lparr>sign = False, digs = ''5'', decpt = 2\<rparr>, row = [Float (Fin \<lparr>sign = False, digs = ''5'', decpt = 2\<rparr>), Str ''A2'']\<rparr>, pos = \<lparr>amount = Fin \<lparr>sign = False, digs = ''5'', decpt = 2\<rparr>, row = [Float (Fin \<lparr>sign = False, digs = ''5'', decpt = 2\<rparr>), Str ''B1'']\<rparr>, matched_amount = Fin \<lparr>sign = False, digs = ''5'', decpt = 2\<rparr>\<rparr>], unmatched_opera = [\<lparr>amount = Fin \<lparr>sign = False, digs = ''7'', decpt = 2\<rparr>, row = [Float (Fin \<lparr>sign = False, digs = ''7'', decpt = 2\<rparr>), Str ''A3'']\<rparr>], unmatched_pos = [\<lparr>amount = Fin \<lparr>sign = False, digs = ''8'', decpt = 2\<rparr>, row = [Float (Fin \<lparr>sign = False, digs = ''8'', decpt = 2\<rparr>), Str ''B3'']\<rparr>], amount_mismatch = []\<rparr> =
     [\<lparr>amount = Fin \<lparr>sign = False, digs = ''7'', decpt = 2\<rparr>, row = [Float (Fin \<lparr>sign = False, digs = ''7'', decpt = 2\<rparr>), Str ''A3'']\<rparr>] \<and>
   unmatched_pos \<lparr>matched = [\<lparr>opera = \<lparr>amount = Fin \<lparr>sign = False, digs = ''5'', decpt = 2\<rparr>, row = [Float (Fin \<lparr>sign = False, digs = ''5'', decpt = 2\<rparr>), Str ''A1'']\<rparr>, pos = \<lparr>amount = Fin \<lparr>sign = False, digs = ''5'', decpt = 2\<rparr>, row = [Float (Fin \<lparr>sign = False, digs = ''5'', decpt = 2\<rparr>), Str ''B1'']\<rparr>, matched_amount = Fin \<lparr>sign = False, digs = ''5'', decpt = 2\<rparr>\<rparr>, \<lparr>opera = \<lparr>amount = Fin \<lparr>sign = False, digs = ''5'', decpt = 2\<rparr>, row = [Float (Fin \<lparr>sign = False, digs = ''5'', decpt = 2\<rparr>), Str ''A2'']\<rparr>, pos = \<lparr>amount = Fin \<lparr>sign = False, digs = ''5'', decpt = 2\<rparr>, row = [Float (Fin \<lparr>sign = False, digs = ''5'', decpt = 2\<rparr>), Str ''B1'']\<rparr>, matched_amount = Fin \<lparr>sign = False, digs = ''5'', decpt = 2\<rparr>\<rparr>], unmatched_opera = [\<lparr>amount = Fin \<lparr>sign = False, digs = ''7'', decpt = 2\<rparr>, row = [Float (Fin \<lparr>sign = False, digs = ''7'', decpt = 2\<rparr>), Str ''A3'']\<rparr>], unmatched_pos = [\<lparr>amount = Fin \<lparr>sign = False, digs = ''8'', decpt = 2\<rparr>, row = [Float (Fin \<lparr>sign = False, digs = ''8'', decpt = 2\<rparr>), Str ''B3'']\<rparr>], amount_mismatch = []\<rparr> =
     [\<lparr>amount = Fin \<lparr>sign = False, digs = ''8'', decpt = 2\<rparr>, row = [Float (Fin \<lparr>sign = False, digs = ''8'', decpt = 2\<rparr>), Str ''B3'']\<rparr>]"
  (is "?hit \<and> ?run \<and> ?left \<and> ?right")
proof -
  have hit: ?hit by code_simp
  have run: ?run by code_simp
  from removal_by_amount [of _ _ _ _ _ _ "\<lparr>names = [''amount'', ''id''], txns = [\<lparr>amount = Fin \<lparr>sign = False, digs = ''5'', decpt = 2\<rparr>, row = [Float (Fin \<lparr>sign = False, digs = ''5'', decpt = 2\<rparr>), Str ''A1'']\<rparr>, \<lparr>amount = Fin \<lparr>sign = False, digs = ''5'', decpt = 2\<rparr>, row = [Float (Fin \<lparr>sign = False, digs = ''5'', decpt = 2\<rparr>), Str ''A2'']\<rparr>, \<lparr>amount = Fin \<lparr>sign = False, digs = ''7'', decpt = 2\<rparr>, row = [Float (Fin \<lparr>sign = False, digs = ''7'', decpt = 2\<rparr>), Str ''A3'']\<rparr>]\<rparr>"
      "\<lparr>names = [''amount'', ''id''], txns = [\<lparr>amount = Fin \<lparr>sign = False, digs = ''5'', decpt = 2\<rparr>, row = [Float (Fin \<lparr>sign = False, digs = ''5'', decpt = 2\<rparr>), Str ''B1'']\<rparr>, \<lparr>amount = Fin \<lparr>sign = False, digs = ''5'', decpt = 2\<rparr>, row = [Float (Fin \<lparr>sign = False, digs = ''5'', decpt = 2\<rparr>), Str ''B2'']\<rparr>, \<lparr>amount = Fin \<lparr>sign = False, digs = ''8'', decpt = 2\<rparr>, row = [Float (Fin \<lparr>sign = False, digs = ''8'', decpt = 2\<rparr>), Str ''B3'']\<rparr>]\<rparr>"
      "\<lparr>matched = [\<lparr>opera = \<lparr>amount = Fin \<lparr>sign = False, digs = ''5'', decpt = 2\<rparr>, row = [Float (Fin \<lparr>sign = False, digs = ''5'', decpt = 2\<rparr>), Str ''A1'']\<rparr>, pos = \<lparr>amount = Fin \<lparr>sign = False, digs = ''5'', decpt = 2\<rparr>, row = [Float (Fin \<lparr>sign = False, digs = ''5'', decpt = 2\<rparr>), Str ''B1'']\<rparr>, matched_amount = Fin \<lparr>sign = False, digs = ''5'', decpt = 2\<rparr>\<rparr>, \<lparr>opera = \<lparr>amount = Fin \<lparr>sign = False, digs = ''5'', decpt = 2\<rparr>, row = [Float (Fin \<lparr>sign = False, digs = ''5'', decpt = 2\<rparr>), Str ''A2'']\<rparr>, pos = \<lparr>amount = Fin \<lparr>sign = False, digs = ''5'', decpt = 2\<rparr>, row = [Float (Fin \<lparr>sign = False, digs = ''5'', decpt = 2\<rparr>), Str ''B1'']\<rparr>, matched_amount = Fin \<lparr>sign = False, digs = ''5'', decpt = 2\<rparr>\<rparr>], unmatched_opera = [\<lparr>amount = Fin \<lparr>sign = False, digs = ''7'', decpt = 2\<rparr>, row = [Float (Fin \<lparr>sign = False, digs = ''7'', decpt = 2\<rparr>), Str ''A3'']\<rparr>], unmatched_pos = [\<lparr>amount = Fin \<lparr>sign = False, digs = ''8'', decpt = 2\<rparr>, row = [Float (Fin \<lparr>sign = False, digs = ''8'', decpt = 2\<rparr>), Str ''B3'']\<rparr>], amount_mismatch = []\<rparr>"] run
  have "?left \<and> ?right" by simp
  with hit run show ?thesis by blast
qed

text \<open>
  C6, as the code has it. For the Opera table
  \<^verbatim>\<open>[{amount: 50, id: A1}, {amount: 50, id: A2}]\<close> and the POS table
  \<^verbatim>\<open>[{amount: 50, id: B1}]\<close> the run returns two exact matches, (A1, B1) and (A2, B1),
  and both unmatched lists are empty: a POS row is not used up by a match.
\<close>

theorem scenario_duplicates:
  "reconcile_transactions
     \<lparr>columns = [''amount'', ''id''], rows = [[Float (Fin \<lparr>sign = False, digs = ''5'', decpt = 2\<rparr>), Str ''A1''], [Float (Fin \<lparr>sign = False, digs = ''5'', decpt = 2\<rparr>), Str ''A2'']]\<rparr>
     \<lparr>columns = [''amount'', ''id''], rows = [[Float (Fin \<lparr>sign = False, digs = ''5'', decpt = 2\<rparr>), Str ''B1'']]\<rparr> =
   Inr \<lparr>matched = [\<lparr>opera = \<lparr>amount = Fin \<lparr>sign = False, digs = ''5'', decpt = 2\<rparr>, row = [Float (Fin \<lparr>sign = False, digs = ''5'', decpt = 2\<rparr>), Str ''A1'']\<rparr>, pos = \<lparr>amount = Fin \<lparr>sign = False, digs = ''5'', decpt = 2\<rparr>, row = [Float (Fin \<lparr>sign = False, digs = ''5'', decpt = 2\<rparr>), Str ''B1'']\<rparr>, matched_amount = Fin \<lparr>sign = False, digs = ''5'', decpt = 2\<rparr>\<rparr>, \<lparr>opera = \<lparr>amount = Fin \<lparr>sign = False, digs = ''5'', decpt = 2\<rparr>, row = [Float (Fin \<lparr>sign = False, digs = ''5'', decpt = 2\<rparr>), Str ''A2'']\<rparr>, pos = \<lparr>amount = Fin \<lparr>sign = False, digs = ''5'', decpt = 2\<rparr>, row = [Float (Fin \<lparr>sign = False, digs = ''5'', decpt = 2\<rparr>), Str ''B1'']\<rparr>, matched_amount = Fin \<lparr>sign = False, digs = ''5'', decpt = 2\<rparr>\<rparr>], unmatched_opera = [], unmatched_pos = [], amount_mismatch = []\<rparr>"
  by code_simp

text \<open>
  C6 as stated asks for one exact match and for A2 in the unmatched Opera list. The run
  returns two exact matches and an empty unmatched Opera list.
\<close>

theorem scenario_duplicates_both_matched:
  "\<not> isl (reconcile_transactions
     \<lparr>columns = [''amount'', ''id''], rows = [[Float (Fin \<lparr>sign = False, digs = ''5'', decpt = 2\<rparr>), Str ''A1''], [Float (Fin \<lparr>sign = False, digs = ''5'', decpt = 2\<rparr>), Str ''A2'']]\<rparr>
     \<lparr>columns = [''amount'', ''id''], rows = [[Float (Fin \<lparr>sign = False, digs = ''5'', decpt = 2\<rparr>), Str ''B1'']]\<rparr>) \<and>
   length (matched (projr (reconcile_transactions
     \<lparr>columns = [''amount'', ''id''], rows = [[Float (Fin \<lparr>sign = False, digs = ''5'', decpt = 2\<rparr>), Str ''A1''], [Float (Fin \<lparr>sign = False, digs = ''5'', decpt = 2\<rparr>), Str ''A2'']]\<rparr>
     \<lparr>columns = [''amount'', ''id''], rows = [[Float (Fin \<lparr>sign = False, digs = ''5'', decpt = 2\<rparr>), Str ''B1'']]\<rparr>))) = 2 \<and>
   unmatched_opera (projr (reconcile_transactions
     \<lparr>columns = [''amount'', ''id''], rows = [[Float (Fin \<lparr>sign = False, digs = ''5'', decpt = 2\<rparr>), Str ''A1''], [Float (Fin \<lparr>sign = False, digs = ''5'', decpt = 2\<rparr>), Str ''A2'']]\<rparr>
     \<lparr>columns = [''amount'', ''id''], rows = [[Float (Fin \<lparr>sign = False, digs = ''5'', decpt = 2\<rparr>), Str ''B1'']]\<rparr>)) = []"
  by code_simp

text \<open>
  C9 at the input it fails on. The Opera table \<^verbatim>\<open>[{amount: 0, id: "A1"}]\<close> and the POS
  table \<^verbatim>\<open>[{amount: 5, id: "B1"}]\<close> hold text beside the amounts, so the rows carry
  Python floats: the run ends in \<^verbatim>\<open>ZeroDivisionError\<close>.
\<close>

theorem zero_amount_raises:
  "reconcile_transactions
     \<lparr>columns = [''amount'', ''id''], rows = [[Float (Fin \<lparr>sign = False, digs = [], decpt = 0\<rparr>), Str ''A1'']]\<rparr>
     \<lparr>columns = [''amount'', ''id''], rows = [[Float (Fin \<lparr>sign = False, digs = ''5'', decpt = 1\<rparr>), Str ''B1'']]\<rparr> = Inl ZeroDivisionError"
  by code_simp

text \<open>
  C10. In a run that returns, an Opera row a of negative amount with no exact match is
  reported as an amount mismatch with every POS row b whose finite amount differs from
  that of a, whatever the size of the difference.
\<close>

theorem negative_amount_mismatches:
  assumes run: "reconcile opera_df pos_df = Inr r"
    and a: "a \<in> set (txns opera_df)" "amount a = Fin x" "val x < 0"
      "exact_match a (txns pos_df) = None"
    and b: "b \<in> set (txns pos_df)" "amount b = Fin y" "val y \<noteq> val x"
  shows "\<lparr>mis_opera = a, mis_pos = b, difference = \<bar>val x - val y\<bar>\<rparr> \<in> set (amount_mismatch r)"
proof -
  let ?d = "\<bar>val x - val y\<bar>"
  from b have d: "0 < ?d" by simp
  with a have "?d / val x < 0"
    by (simp add: divide_pos_neg)
  moreover have "(0::rat) < 5 / 100" by simp
  ultimately have "?d / val x < 5 / 100" by (rule less_trans)
  with d a b have "similar py (amount a) (amount b) = Inr (Some ?d)" for py
    by (simp add: Let_def)
  with a b match_rows_mismatch [OF run [unfolded reconcile_def]] show ?thesis
    by auto
qed

theorem negative_amount_mismatches_witness:
  "reconcile
     \<lparr>names = [''amount'', ''id''], txns = [\<lparr>amount = Fin \<lparr>sign = True, digs = ''1'', decpt = 3\<rparr>, row = [Float (Fin \<lparr>sign = True, digs = ''1'', decpt = 3\<rparr>), Str ''A1'']\<rparr>]\<rparr>
     \<lparr>names = [''amount'', ''id''], txns = [\<lparr>amount = Fin \<lparr>sign = False, digs = ''5'', decpt = 3\<rparr>, row = [Float (Fin \<lparr>sign = False, digs = ''5'', decpt = 3\<rparr>), Str ''B1'']\<rparr>]\<rparr> =
   Inr \<lparr>matched = [], unmatched_opera = [\<lparr>amount = Fin \<lparr>sign = True, digs = ''1'', decpt = 3\<rparr>, row = [Float (Fin \<lparr>sign = True, digs = ''1'', decpt = 3\<rparr>), Str ''A1'']\<rparr>], unmatched_pos = [\<lparr>amount = Fin \<lparr>sign = False, digs = ''5'', decpt = 3\<rparr>, row = [Float (Fin \<lparr>sign = False, digs = ''5'', decpt = 3\<rparr>), Str ''B1'']\<rparr>], amount_mismatch = [\<lparr>mis_opera = \<lparr>amount = Fin \<lparr>sign = True, digs = ''1'', decpt = 3\<rparr>, row = [Float (Fin \<lparr>sign = True, digs = ''1'', decpt = 3\<rparr>), Str ''A1'']\<rparr>, mis_pos = \<lparr>amount = Fin \<lparr>sign = False, digs = ''5'', decpt = 3\<rparr>, row = [Float (Fin \<lparr>sign = False, digs = ''5'', decpt = 3\<rparr>), Str ''B1'']\<rparr>, difference = 600\<rparr>]\<rparr> \<and>
   \<lparr>mis_opera = \<lparr>amount = Fin \<lparr>sign = True, digs = ''1'', decpt = 3\<rparr>, row = [Float (Fin \<lparr>sign = True, digs = ''1'', decpt = 3\<rparr>), Str ''A1'']\<rparr>, mis_pos = \<lparr>amount = Fin \<lparr>sign = False, digs = ''5'', decpt = 3\<rparr>, row = [Float (Fin \<lparr>sign = False, digs = ''5'', decpt = 3\<rparr>), Str ''B1'']\<rparr>, difference = 600\<rparr>
     \<in> set (amount_mismatch \<lparr>matched = [], unmatched_opera = [\<lparr>amount = Fin \<lparr>sign = True, digs = ''1'', decpt = 3\<rparr>, row = [Float (Fin \<lparr>sign = True, digs = ''1'', decpt = 3\<rparr>), Str ''A1'']\<rparr>], unmatched_pos = [\<lparr>amount = Fin \<lparr>sign = False, digs = ''5'', decpt = 3\<rparr>, row = [Float (Fin \<lparr>sign = False, digs = ''5'', decpt = 3\<rparr>), Str ''B1'']\<rparr>], amount_mismatch = [\<lparr>mis_opera = \<lparr>amount = Fin \<lparr>sign = True, digs = ''1'', decpt = 3\<rparr>, row = [Float (Fin \<lparr>sign = True, digs = ''1'', decpt = 3\<rparr>), Str ''A1'']\<rparr>, mis_pos = \<lparr>amount = Fin \<lparr>sign = False, digs = ''5'', decpt = 3\<rparr>, row = [Float (Fin \<lparr>sign = False, digs = ''5'', decpt = 3\<rparr>), Str ''B1'']\<rparr>, difference = 600\<rparr>]\<rparr>)"
  (is "?run \<and> ?reported")
proof -
  have run: ?run by code_simp
  have x: "val \<lparr>sign = True, digs = ''1'', decpt = 3\<rparr> = - 100"
    and y: "val \<lparr>sign = False, digs = ''5'', decpt = 3\<rparr> = 500"
    by (simp_all add: val_def digits_val_def digit_val_def)
  have "exact_match \<lparr>amount = Fin \<lparr>sign = True, digs = ''1'', decpt = 3\<rparr>, row = [Float (Fin \<lparr>sign = True, digs = ''1'', decpt = 3\<rparr>), Str ''A1'']\<rparr>
      (txns \<lparr>names = [''amount'', ''id''], txns = [\<lparr>amount = Fin \<lparr>sign = False, digs = ''5'', decpt = 3\<rparr>, row = [Float (Fin \<lparr>sign = False, digs = ''5'', decpt = 3\<rparr>), Str ''B1'']\<rparr>]\<rparr>) = None"
    by (simp add: x y)
  from negative_amount_mismatches [OF run _ _ _ this, of "\<lparr>sign = True, digs = ''1'', decpt = 3\<rparr>" "\<lparr>amount = Fin \<lparr>sign = False, digs = ''5'', decpt = 3\<rparr>, row = [Float (Fin \<lparr>sign = False, digs = ''5'', decpt = 3\<rparr>), Str ''B1'']\<rparr>" "\<lparr>sign = False, digs = ''5'', decpt = 3\<rparr>"] x y
  have ?reported by simp
  with run show ?thesis by blast
qed

text \<open>
  C5. A row whose amount is \<open>NaN\<close> (the text did not parse) is in no exact match and in
  no amount mismatch of a run that returns, and it is in the unmatched list of its table.
  It raises nothing: whether the loops raise is the same with the \<open>NaN\<close> rows of both
  tables taken out.
\<close>

theorem unparseable_amounts:
  "(reconcile opera_df pos_df = Inr r \<longrightarrow>
      (\<forall>t\<in>set (txns opera_df). amount t = NaN \<longrightarrow>
         t \<in> set (unmatched_opera r) \<and> (\<forall>m\<in>set (matched r). opera m \<noteq> t) \<and>
         (\<forall>m\<in>set (amount_mismatch r). mis_opera m \<noteq> t)) \<and>
      (\<forall>t\<in>set (txns pos_df). amount t = NaN \<longrightarrow>
         t \<in> set (unmatched_pos r) \<and> (\<forall>m\<in>set (matched r). pos m \<noteq> t) \<and>
         (\<forall>m\<in>set (amount_mismatch r). mis_pos m \<noteq> t))) \<and>
   isl (match_rows py as ps st) =
   isl (match_rows py (filter (\<lambda>t. amount t \<noteq> NaN) as) (filter (\<lambda>t. amount t \<noteq> NaN) ps) st')"
proof (intro conjI impI ballI)
  assume run: "reconcile opera_df pos_df = Inr r"
  note run' = run [unfolded reconcile_def]
  have matched_finite:
    "\<exists>p q. amount (opera m) = Fin p \<and> amount (pos m) = Fin q" if "m \<in> set (matched r)" for m
  proof -
    from that match_rows_matched [OF run'] obtain a b
      where "m = \<lparr>opera = a, pos = b, matched_amount = amount a\<rparr>"
        and "exact_match a (txns pos_df) = Some b"
      by auto
    with exact_match_Some [of a "txns pos_df" b] close_finite show ?thesis
      by auto
  qed
  have mismatch_finite:
    "\<exists>p q. amount (mis_opera m) = Fin p \<and> amount (mis_pos m) = Fin q"
    if "m \<in> set (amount_mismatch r)" for m
  proof -
    from that match_rows_mismatch [OF run'] obtain a b d
      where "m = \<lparr>mis_opera = a, mis_pos = b, difference = d\<rparr>"
        and "similar (object_rows opera_df \<and> object_rows pos_df) (amount a) (amount b)
             = Inr (Some d)"
      by auto
    with similar_finite show ?thesis
      by fastforce
  qed
  {
    fix t
    assume t: "t \<in> set (txns opera_df)" "amount t = NaN"
    from t match_rows_unmatched [OF run'] show "t \<in> set (unmatched_opera r)"
      by simp
    fix m
    { assume "m \<in> set (matched r)"
      with matched_finite t show "opera m \<noteq> t" by fastforce }
    { assume "m \<in> set (amount_mismatch r)"
      with mismatch_finite t show "mis_opera m \<noteq> t" by fastforce }
  }
  {
    fix t
    assume t: "t \<in> set (txns pos_df)" "amount t = NaN"
    from t match_rows_unmatched [OF run'] show "t \<in> set (unmatched_pos r)"
      by simp
    fix m
    { assume "m \<in> set (matched r)"
      with matched_finite t show "pos m \<noteq> t" by fastforce }
    { assume "m \<in> set (amount_mismatch r)"
      with mismatch_finite t show "mis_pos m \<noteq> t" by fastforce }
  }
next
  show "isl (match_rows py as ps st) =
    isl (match_rows py (filter (\<lambda>t. amount t \<noteq> NaN) as) (filter (\<lambda>t. amount t \<noteq> NaN) ps) st')"
    unfolding match_rows_raises exact_match_skips_NaN by (auto; force)
qed

theorem unparseable_amounts_witness:
  "reconcile
     \<lparr>names = [''amount'', ''id''], txns = [\<lparr>amount = NaN, row = [Float NaN, Str ''A1'']\<rparr>, \<lparr>amount = Fin \<lparr>sign = False, digs = ''5'', decpt = 2\<rparr>, row = [Float (Fin \<lparr>sign = False, digs = ''5'', decpt = 2\<rparr>), Str ''A2'']\<rparr>]\<rparr>
     \<lparr>names = [''amount'', ''id''], txns = [\<lparr>amount = Fin \<lparr>sign = False, digs = ''5'', decpt = 2\<rparr>, row = [Float (Fin \<lparr>sign = False, digs = ''5'', decpt = 2\<rparr>), Str ''B1'']\<rparr>, \<lparr>amount = NaN, row = [Float NaN, Str ''B2'']\<rparr>]\<rparr> =
   Inr \<lparr>matched = [\<lparr>opera = \<lparr>amount = Fin \<lparr>sign = False, digs = ''5'', decpt = 2\<rparr>, row = [Float (Fin \<lparr>sign = False, digs = ''5'', decpt = 2\<rparr>), Str ''A2'']\<rparr>, pos = \<lparr>amount = Fin \<lparr>sign = False, digs = ''5'', decpt = 2\<rparr>, row = [Float (Fin \<lparr>sign = False, digs = ''5'', decpt = 2\<rparr>), Str ''B1'']\<rparr>, matched_amount = Fin \<lparr>sign = False, digs = ''5'', decpt = 2\<rparr>\<rparr>], unmatched_opera = [\<lparr>amount = NaN, row = [Float NaN, Str ''A1'']\<rparr>], unmatched_pos = [\<lparr>amount = NaN, row = [Float NaN, Str ''B2'']\<rparr>], amount_mismatch = []\<rparr> \<and>
   \<lparr>amount = NaN, row = [Float NaN, Str ''A1'']\<rparr>
     \<in> set (unmatched_opera \<lparr>matched = [\<lparr>opera = \<lparr>amount = Fin \<lparr>sign = False, digs = ''5'', decpt = 2\<rparr>, row = [Float (Fin \<lparr>sign = False, digs = ''5'', decpt = 2\<rparr>), Str ''A2'']\<rparr>, pos = \<lparr>amount = Fin \<lparr>sign = False, digs = ''5'', decpt = 2\<rparr>, row = [Float (Fin \<lparr>sign = False, digs = ''5'', decpt = 2\<rparr>), Str ''B1'']\<rparr>, matched_amount = Fin \<lparr>sign = False, digs = ''5'', decpt = 2\<rparr>\<rparr>], unmatched_opera = [\<lparr>amount = NaN, row = [Float NaN, Str ''A1'']\<rparr>], unmatched_pos = [\<lparr>amount = NaN, row = [Float NaN, Str ''B2'']\<rparr>], amount_mismatch = []\<rparr>) \<and>
   \<lparr>amount = NaN, row = [Float NaN, Str ''B2'']\<rparr>
     \<in> set (unmatched_pos \<lparr>matched = [\<lparr>opera = \<lparr>amount = Fin \<lparr>sign = False, digs = ''5'', decpt = 2\<rparr>, row = [Float (Fin \<lparr>sign = False, digs = ''5'', decpt = 2\<rparr>), Str ''A2'']\<rparr>, pos = \<lparr>amount = Fin \<lparr>sign = False, digs = ''5'', decpt = 2\<rparr>, row = [Float (Fin \<lparr>sign = False, digs = ''5'', decpt = 2\<rparr>), Str ''B1'']\<rparr>, matched_amount = Fin \<lparr>sign = False, digs = ''5'', decpt = 2\<rparr>\<rparr>], unmatched_opera = [\<lparr>amount = NaN, row = [Float NaN, Str ''A1'']\<rparr>], unmatched_pos = [\<lparr>amount = NaN, row = [Float NaN, Str ''B2'']\<rparr>], amount_mismatch = []\<rparr>)"
  (is "?run \<and> ?left \<and> ?right")
proof -
  have run: ?run by code_simp
  note all = unparseable_amounts [of "\<lparr>names = [''amount'', ''id''], txns = [\<lparr>amount = NaN, row = [Float NaN, Str ''A1'']\<rparr>, \<lparr>amount = Fin \<lparr>sign = False, digs = ''5'', decpt = 2\<rparr>, row = [Float (Fin \<lparr>sign = False, digs = ''5'', decpt = 2\<rparr>), Str ''A2'']\<rparr>]\<rparr>"
      "\<lparr>names = [''amount'', ''id''], txns = [\<lparr>amount = Fin \<lparr>sign = False, digs = ''5'', decpt = 2\<rparr>, row = [Float (Fin \<lparr>sign = False, digs = ''5'', decpt = 2\<rparr>), Str ''B1'']\<rparr>, \<lparr>amount = NaN, row = [Float NaN, Str ''B2'']\<rparr>]\<rparr>"
      "\<lparr>matched = [\<lparr>opera = \<lparr>amount = Fin \<lparr>sign = False, digs = ''5'', decpt = 2\<rparr>, row = [Float (Fin \<lparr>sign = False, digs = ''5'', decpt = 2\<rparr>), Str ''A2'']\<rparr>, pos = \<lparr>amount = Fin \<lparr>sign = False, digs = ''5'', decpt = 2\<rparr>, row = [Float (Fin \<lparr>sign = False, digs = ''5'', decpt = 2\<rparr>), Str ''B1'']\<rparr>, matched_amount = Fin \<lparr>sign = False, digs = ''5'', decpt = 2\<rparr>\<rparr>], unmatched_opera = [\<lparr>amount = NaN, row = [Float NaN, Str ''A1'']\<rparr>], unmatched_pos = [\<lparr>amount = NaN, row = [Float NaN, Str ''B2'']\<rparr>], amount_mismatch = []\<rparr>", THEN conjunct1, THEN mp, OF run]
  from all have ?left by simp
  moreover from all have ?right by simp
  ultimately show ?thesis using run by blast
qed

section \<open>Properties of normalisation\<close>

subsection \<open>Column names\<close>

lemma lower_char_idem: "lower_char (lower_char c) = lower_char c"
  by (simp add: lower_char_def Let_def)

lemma lower_fixed: "set s \<subseteq> set (lower t) \<Longrightarrow> lower s = s"
  unfolding lower_def by (rule map_idI) (auto simp: lower_char_idem)

lemma set_strip: "set (strip s) \<subseteq> set s"
proof -
  have "set (dropWhile is_space (rev (dropWhile is_space s))) \<subseteq> set (rev (dropWhile is_space s))"
    by (rule subsetI) (rule set_dropWhileD)
  also have "\<dots> \<subseteq> set s"
    by (auto dest: set_dropWhileD)
  finally show ?thesis by (simp add: strip_def)
qed

lemma strip_idem: "strip (strip s) = strip s"
proof -
  define z where "z = dropWhile is_space s"
  define w where "w = dropWhile is_space (rev z)"
  have y: "strip s = rev w" by (simp add: strip_def w_def z_def)
  have front: "dropWhile is_space (rev w) = rev w"
  proof (cases "w = []")
    case True
    then show ?thesis by simp
  next
    case False
    then have "z \<noteq> []" by (auto simp: w_def)
    then have "\<not> is_space (hd z)" unfolding z_def by (rule hd_dropWhile)
    moreover have "hd z \<in> set (rev z)" using \<open>z \<noteq> []\<close> by simp
    ultimately have "last w = last (rev z)" unfolding w_def by (intro dropWhile_last)
    with \<open>z \<noteq> []\<close> have "last w = hd z" by (simp add: last_rev)
    with \<open>\<not> is_space (hd z)\<close> False show ?thesis
      by (simp add: dropWhile_eq_self_iff hd_rev)
  qed
  have "strip (rev w) = rev (dropWhile is_space w)"
    by (simp add: strip_def front)
  also have "\<dots> = rev w" by (simp add: w_def)
  finally show ?thesis by (simp add: y)
qed

lemma names_idem: "strip (lower (strip (lower c))) = strip (lower c)"
  by (simp add: lower_fixed [OF set_strip] strip_idem)

lemma positions_empty: "positions k cols = [] \<longleftrightarrow> k \<notin> set cols"
  by (auto simp: positions_def filter_empty_conv in_set_conv_nth)

subsection \<open>Reading a text as a float\<close>

lemma digit_chars [simp]:
  "is_digit CHR ''0''" "\<not> is_digit CHR ''.''" "\<not> is_digit CHR ''-''"
  by (simp_all add: is_digit_def)

lemma keep_chars [simp]:
  "keep_char CHR ''.''" "keep_char CHR ''-''" "is_digit c \<Longrightarrow> keep_char c"
  by (simp_all add: keep_char_def)

lemma strip_zeros_front:
  assumes "ds \<noteq> []" "hd ds \<noteq> c"
  shows "dropWhile (\<lambda>x. x = c) (replicate j c @ ds) = ds"
proof -
  have "dropWhile (\<lambda>x. x = c) (replicate j c @ ds) = dropWhile (\<lambda>x. x = c) ds"
    by (rule dropWhile_append2) simp
  with assms show ?thesis by (simp add: dropWhile_eq_self_iff)
qed

lemma strip_zeros_back:
  assumes "ds \<noteq> []" "last ds \<noteq> c"
  shows "rev (dropWhile (\<lambda>x. x = c) (rev (ds @ replicate k c))) = ds"
proof -
  from assms have "rev ds \<noteq> []" "hd (rev ds) \<noteq> c" by (simp_all add: hd_rev)
  from strip_zeros_front [OF this, of k] show ?thesis by simp
qed

text \<open>The decimal read from a text that pads the significant digits with zeros.\<close>

lemma mk_dec_padded:
  assumes ds: "ds \<noteq> []" "hd ds \<noteq> CHR ''0''" "last ds \<noteq> CHR ''0''"
    and parts: "ip @ fp = replicate j CHR ''0'' @ ds @ replicate k CHR ''0''"
  shows "mk_dec sg ip fp = \<lparr>sign = sg, digs = ds, decpt = int (length ip) - int j\<rparr>"
proof -
  let ?z = "\<lambda>c. c = CHR ''0''"
  from ds have nonempty: "ds @ replicate k CHR ''0'' \<noteq> []"
    and front: "hd (ds @ replicate k CHR ''0'') \<noteq> CHR ''0''"
    by simp_all
  have sig: "dropWhile ?z (ip @ fp) = ds @ replicate k CHR ''0''"
    unfolding parts by (rule strip_zeros_front [OF nonempty front])
  have "length (ip @ fp) = j + length (ds @ replicate k CHR ''0'')"
    unfolding parts by simp
  then have lead: "length (ip @ fp) - length (dropWhile ?z (ip @ fp)) = j"
    unfolding sig by simp
  have trimmed: "rev (dropWhile ?z (rev (dropWhile ?z (ip @ fp)))) = ds"
    unfolding sig using ds(1,3) by (rule strip_zeros_back)
  from ds(1) show ?thesis
    unfolding mk_dec_def Let_def lead trimmed by simp
qed

lemma mk_dec_canonical:
  assumes "list_all is_digit ip" "list_all is_digit fp"
  shows "canonical (mk_dec sg ip fp)"
proof -
  let ?z = "\<lambda>c. c = CHR ''0''"
  define sig where "sig = dropWhile ?z (ip @ fp)"
  define trimmed where "trimmed = dropWhile ?z (rev sig)"
  have "mk_dec sg ip fp =
      \<lparr>sign = sg, digs = rev trimmed,
       decpt = (if rev trimmed = [] then 0
                else int (length ip) - int (length (ip @ fp) - length sig))\<rparr>"
    unfolding mk_dec_def Let_def sig_def trimmed_def by (rule refl)
  then have digs: "digs (mk_dec sg ip fp) = rev trimmed"
    and pt: "trimmed = [] \<Longrightarrow> decpt (mk_dec sg ip fp) = 0"
    by simp_all
  have "set trimmed \<subseteq> set (rev sig)" unfolding trimmed_def by (auto dest: set_dropWhileD)
  also have "\<dots> \<subseteq> set (ip @ fp)" unfolding sig_def by (auto dest: set_dropWhileD)
  finally have all: "list_all is_digit (rev trimmed)"
    using assms by (auto simp: list_all_iff)
  have ends: "hd (rev trimmed) \<noteq> CHR ''0'' \<and> last (rev trimmed) \<noteq> CHR ''0''" if ne: "trimmed \<noteq> []"
  proof
    from ne have last_ok: "hd trimmed \<noteq> CHR ''0''"
      unfolding trimmed_def by (rule hd_dropWhile)
    with ne show "last (rev trimmed) \<noteq> CHR ''0''" by (simp add: last_rev)
    from ne have "sig \<noteq> []" by (auto simp: trimmed_def)
    then have first: "hd sig \<noteq> CHR ''0''" unfolding sig_def by (rule hd_dropWhile)
    moreover have "hd sig \<in> set (rev sig)" using \<open>sig \<noteq> []\<close> by simp
    ultimately have "last trimmed = last (rev sig)" unfolding trimmed_def by (intro dropWhile_last)
    with \<open>sig \<noteq> []\<close> have "last trimmed = hd sig" by (simp add: last_rev)
    with first ne show "hd (rev trimmed) \<noteq> CHR ''0''" by (simp add: hd_rev)
  qed
  show ?thesis
    unfolding canonical_def digs using all pt ends by simp
qed

lemma to_numeric_canonical:
  assumes "to_numeric s = Fin d"
  shows "canonical d"
proof -
  define sg where "sg = (s \<noteq> [] \<and> hd s = CHR ''-'')"
  define u where "u = (if sg then tl s else s)"
  have ip: "list_all is_digit (takeWhile is_digit u)"
    by (auto simp: list_all_iff dest: set_takeWhileD)
  have unfolded: "to_numeric s =
      (if dropWhile is_digit u = [] then
         (if takeWhile is_digit u = [] then NaN else Fin (mk_dec sg (takeWhile is_digit u) []))
       else if hd (dropWhile is_digit u) = CHR ''.'' \<and> list_all is_digit (tl (dropWhile is_digit u)) \<and>
               \<not> (takeWhile is_digit u = [] \<and> tl (dropWhile is_digit u) = [])
       then Fin (mk_dec sg (takeWhile is_digit u) (tl (dropWhile is_digit u)))
       else NaN)"
    unfolding to_numeric_def Let_def sg_def u_def by (rule refl)
  from assms [unfolded unfolded]
  consider "d = mk_dec sg (takeWhile is_digit u) []"
    | "list_all is_digit (tl (dropWhile is_digit u))"
      "d = mk_dec sg (takeWhile is_digit u) (tl (dropWhile is_digit u))"
    by (auto split: if_splits)
  then show ?thesis
  proof cases
    case 1
    with ip show ?thesis by (simp add: mk_dec_canonical)
  next
    case 2
    with ip show ?thesis by (simp add: mk_dec_canonical)
  qed
qed

text \<open>A text made of a sign, digits, a dot and digits is read as it stands.\<close>

lemma to_numeric_parts:
  assumes "list_all is_digit ip" "list_all is_digit fp" "\<not> (ip = [] \<and> fp = [])"
  shows "to_numeric ((if sg then ''-'' else []) @ ip @ CHR ''.'' # fp) = Fin (mk_dec sg ip fp)"
proof -
  let ?u = "ip @ CHR ''.'' # fp"
  from assms(1) have tw: "takeWhile is_digit ?u = ip" and dw: "dropWhile is_digit ?u = CHR ''.'' # fp"
    by (simp_all add: list_all_iff takeWhile_append2 dropWhile_append2)
  from assms(1) have nosign: "hd ?u \<noteq> CHR ''-''"
    by (cases ip) auto
  show ?thesis
  proof (cases sg)
    case True
    then have "to_numeric ((if sg then ''-'' else []) @ ?u) = to_numeric (CHR ''-'' # ?u)" by simp
    also have "\<dots> = Fin (mk_dec True ip fp)"
      unfolding to_numeric_def Let_def using assms by (simp add: tw dw)
    finally show ?thesis using True by simp
  next
    case False
    then have "to_numeric ((if sg then ''-'' else []) @ ?u) = to_numeric ?u" by simp
    also have "\<dots> = Fin (mk_dec False ip fp)"
      unfolding to_numeric_def Let_def using assms nosign by (simp add: tw dw)
    finally show ?thesis using False by simp
  qed
qed

subsection \<open>Printing a float and reading it back\<close>

lemma repr_read:
  assumes can: "canonical d" and pos: "prints_positional (Fin d)"
  shows "to_numeric (repr d) = Fin d"
proof -
  let ?sg = "if sign d then ''-'' else []"
  let ?ds = "digs d"
  let ?p = "decpt d"
  from can have digits: "list_all is_digit ?ds" by (simp add: canonical_def)
  have d: "d = \<lparr>sign = sign d, digs = ?ds, decpt = ?p\<rparr>" by simp
  have read: "to_numeric (repr d) = Fin (mk_dec (sign d) ip fp)"
    if "repr d = ?sg @ ip @ CHR ''.'' # fp" "list_all is_digit ip" "list_all is_digit fp" "ip \<noteq> []"
    for ip fp
    using that to_numeric_parts [of ip fp "sign d"] by simp
  show ?thesis
  proof (cases "?ds = []")
    case True
    with can have "?p = 0" by (simp add: canonical_def)
    with True have zero: "mk_dec (sign d) ''0'' ''0'' = d"
      by (simp add: mk_dec_def)
    from True have "repr d = ?sg @ ''0'' @ CHR ''.'' # ''0''"
      by (simp add: repr_def Let_def)
    from read [OF this] zero show ?thesis by simp
  next
    case False
    with can have ends: "hd ?ds \<noteq> CHR ''0''" "last ?ds \<noteq> CHR ''0''"
      by (simp_all add: canonical_def)
    from False pos have range: "- 4 < ?p" "?p \<le> 16" by simp_all
    note padded = mk_dec_padded [OF False ends]
    consider (small) "?p \<le> 0" | (whole) "0 < ?p" "int (length ?ds) \<le> ?p"
      | (split) "0 < ?p" "?p < int (length ?ds)"
      by linarith
    then show ?thesis
    proof cases
      case small
      let ?fp = "replicate (nat (- ?p)) CHR ''0'' @ ?ds"
      from small False range have "repr d = ?sg @ ''0'' @ CHR ''.'' # ?fp"
        by (simp add: repr_def Let_def)
      moreover from digits have "list_all is_digit ?fp" by (auto simp: list_all_iff)
      ultimately have "to_numeric (repr d) = Fin (mk_dec (sign d) ''0'' ?fp)"
        by (intro read) simp_all
      moreover have "''0'' @ ?fp = replicate (Suc (nat (- ?p))) CHR ''0'' @ ?ds @ replicate 0 CHR ''0''"
        by simp
      from padded [OF this, of "sign d"] small have "mk_dec (sign d) ''0'' ?fp = d"
        by simp
      ultimately show ?thesis by simp
    next
      case whole
      let ?ip = "?ds @ replicate (nat (?p - int (length ?ds))) CHR ''0''"
      from whole False range have "repr d = ?sg @ ?ip @ CHR ''.'' # ''0''"
        by (simp add: repr_def Let_def)
      moreover from digits have "list_all is_digit ?ip" by (auto simp: list_all_iff)
      ultimately have "to_numeric (repr d) = Fin (mk_dec (sign d) ?ip ''0'')"
        using False by (intro read) simp_all
      moreover have "?ip @ ''0'' =
          replicate 0 CHR ''0'' @ ?ds @ replicate (Suc (nat (?p - int (length ?ds)))) CHR ''0''"
        by (simp add: replicate_append_same)
      from padded [OF this, of "sign d"] whole have "mk_dec (sign d) ?ip ''0'' = d"
        by simp
      ultimately show ?thesis by simp
    next
      case split
      let ?ip = "take (nat ?p) ?ds" and ?fp = "drop (nat ?p) ?ds"
      from split False range have "repr d = ?sg @ ?ip @ CHR ''.'' # ?fp"
        by (simp add: repr_def Let_def)
      moreover from digits have "list_all is_digit ?ip" "list_all is_digit ?fp"
        by (auto simp: list_all_iff dest: in_set_takeD in_set_dropD)
      moreover from split False have "?ip \<noteq> []" by simp
      ultimately have "to_numeric (repr d) = Fin (mk_dec (sign d) ?ip ?fp)"
        by (intro read)
      moreover have "?ip @ ?fp = replicate 0 CHR ''0'' @ ?ds @ replicate 0 CHR ''0''"
        by simp
      from padded [OF this, of "sign d"] split have "mk_dec (sign d) ?ip ?fp = d"
        by simp
      ultimately show ?thesis by simp
    qed
  qed
qed

lemma repr_clean:
  assumes can: "canonical d" and pos: "prints_positional (Fin d)"
  shows "clean (repr d) = repr d"
proof -
  from can have digits: "\<forall>c\<in>set (digs d). keep_char c"
    by (simp add: canonical_def list_all_iff)
  have "\<forall>c\<in>set (repr d). keep_char c"
  proof (cases "digs d = []")
    case True
    then show ?thesis by (simp add: repr_def Let_def)
  next
    case False
    with pos have "- 4 < decpt d" "decpt d \<le> 16" by simp_all
    with False digits show ?thesis
      by (auto simp: repr_def Let_def dest: in_set_takeD in_set_dropD)
  qed
  then show ?thesis by (simp add: clean_def)
qed

text \<open>Coercing a coerced amount that prints in positional notation gives it back.\<close>

lemma coerce_again:
  assumes "prints_positional (coerce c)"
  shows "coerce (Float (coerce c)) = coerce c"
proof (cases "coerce c")
  case NaN
  then show ?thesis by (simp add: coerce_def to_numeric_def clean_def keep_char_def is_digit_def)
next
  case (Fin d)
  then have "canonical d" unfolding coerce_def by (rule to_numeric_canonical)
  moreover from assms Fin have "prints_positional (Fin d)" by simp
  ultimately have "to_numeric (clean (repr d)) = Fin d"
    by (simp add: repr_clean repr_read)
  with Fin show ?thesis by (simp add: coerce_def)
qed

subsection \<open>Normalising twice\<close>

text \<open>
  Normalising a normalised table again leaves it unchanged when every amount of the
  normalised table prints in positional notation: the column names, the position of the
  amount column, every amount and every other cell stay as they are.
\<close>

lemma normalize_twice:
  assumes first: "normalize_frame df = Inr l"
    and plain: "\<forall>t\<in>set (txns l). prints_positional (amount t)"
  shows "normalize_frame (as_frame l) = Inr l"
proof -
  let ?cols = "map (\<lambda>c. strip (lower c)) (columns df)"
  from first obtain i where i: "positions ''amount'' ?cols = [i]"
    and l: "l = \<lparr>names = ?cols,
                txns = map (\<lambda>r. \<lparr>amount = coerce (r ! i), row = r[i := Float (coerce (r ! i))]\<rparr>)
                         (rows df)\<rparr>"
    by (auto simp: normalize_frame_def Let_def split: list.splits)
  have cols: "map (\<lambda>c. strip (lower c)) (columns (as_frame l)) = ?cols"
    by (simp add: as_frame_def l names_idem)
  have again: "\<lparr>amount = coerce (row t ! i), row = (row t)[i := Float (coerce (row t ! i))]\<rparr> = t"
    if t: "t \<in> set (txns l)" for t
  proof -
    from t l obtain r where r: "t = \<lparr>amount = coerce (r ! i), row = r[i := Float (coerce (r ! i))]\<rparr>"
      by auto
    from plain t r have "prints_positional (coerce (r ! i))" by auto
    then have same: "coerce (Float (coerce (r ! i))) = coerce (r ! i)" by (rule coerce_again)
    show ?thesis
    proof (cases "i < length r")
      case True
      with same show ?thesis by (simp add: r)
    next
      case False
      then show ?thesis by (simp add: r list_update_beyond)
    qed
  qed
  have "map (\<lambda>r. \<lparr>amount = coerce (r ! i), row = r[i := Float (coerce (r ! i))]\<rparr>)
          (rows (as_frame l)) = txns l"
    unfolding as_frame_def by (simp add: map_idI again)
  with cols i show ?thesis
    by (simp add: normalize_frame_def Let_def l)
qed

lemma normalize_twice_example:
  "normalize_frame
     \<lparr>columns = ['' Amount'', ''ID''], rows = [[Str ''$1,234.50'', Str ''A1''], [Str ''n/a'', Str ''A2'']]\<rparr> =
   Inr \<lparr>names = [''amount'', ''id''], txns = [\<lparr>amount = Fin \<lparr>sign = False, digs = ''12345'', decpt = 4\<rparr>, row = [Float (Fin \<lparr>sign = False, digs = ''12345'', decpt = 4\<rparr>), Str ''A1'']\<rparr>, \<lparr>amount = NaN, row = [Float NaN, Str ''A2'']\<rparr>]\<rparr> \<and>
   normalize_frame (as_frame
     \<lparr>names = [''amount'', ''id''], txns = [\<lparr>amount = Fin \<lparr>sign = False, digs = ''12345'', decpt = 4\<rparr>, row = [Float (Fin \<lparr>sign = False, digs = ''12345'', decpt = 4\<rparr>), Str ''A1'']\<rparr>, \<lparr>amount = NaN, row = [Float NaN, Str ''A2'']\<rparr>]\<rparr>) =
   Inr \<lparr>names = [''amount'', ''id''], txns = [\<lparr>amount = Fin \<lparr>sign = False, digs = ''12345'', decpt = 4\<rparr>, row = [Float (Fin \<lparr>sign = False, digs = ''12345'', decpt = 4\<rparr>), Str ''A1'']\<rparr>, \<lparr>amount = NaN, row = [Float NaN, Str ''A2'']\<rparr>]\<rparr>"
  (is "?first \<and> ?second")
proof -
  have first: ?first by code_simp
  from normalize_twice [OF first] have ?second by simp
  with first show ?thesis by blast
qed

section \<open>The claims about normalisation\<close>

text \<open>
  C7 at an input it fails on. The table has one column, \<^verbatim>\<open>Amount\<close>, with the
  texts \<^verbatim>\<open>$5.00\<close> and \<^verbatim>\<open>0.00001\<close>. The second text is normalised to the
  float that prints as \<^verbatim>\<open>1e-05\<close>; normalising the normalised table again strips the
  letter and reads \<^verbatim>\<open>1-05\<close>, which is \<open>NaN\<close>: the table has changed.
\<close>

theorem normalize_twice_small_amount:
  "normalize_frame
     \<lparr>columns = [''Amount ''], rows = [[Str ''$5.00''], [Str ''0.00001'']]\<rparr> =
   Inr \<lparr>names = [''amount''], txns = [\<lparr>amount = Fin \<lparr>sign = False, digs = ''5'', decpt = 1\<rparr>, row = [Float (Fin \<lparr>sign = False, digs = ''5'', decpt = 1\<rparr>)]\<rparr>, \<lparr>amount = Fin \<lparr>sign = False, digs = ''1'', decpt = - 4\<rparr>, row = [Float (Fin \<lparr>sign = False, digs = ''1'', decpt = - 4\<rparr>)]\<rparr>]\<rparr> \<and>
   normalize_frame (as_frame
     \<lparr>names = [''amount''], txns = [\<lparr>amount = Fin \<lparr>sign = False, digs = ''5'', decpt = 1\<rparr>, row = [Float (Fin \<lparr>sign = False, digs = ''5'', decpt = 1\<rparr>)]\<rparr>, \<lparr>amount = Fin \<lparr>sign = False, digs = ''1'', decpt = - 4\<rparr>, row = [Float (Fin \<lparr>sign = False, digs = ''1'', decpt = - 4\<rparr>)]\<rparr>]\<rparr>) =
   Inr \<lparr>names = [''amount''], txns = [\<lparr>amount = Fin \<lparr>sign = False, digs = ''5'', decpt = 1\<rparr>, row = [Float (Fin \<lparr>sign = False, digs = ''5'', decpt = 1\<rparr>)]\<rparr>, \<lparr>amount = NaN, row = [Float NaN]\<rparr>]\<rparr> \<and>
   \<lparr>names = [''amount''], txns = [\<lparr>amount = Fin \<lparr>sign = False, digs = ''5'', decpt = 1\<rparr>, row = [Float (Fin \<lparr>sign = False, digs = ''5'', decpt = 1\<rparr>)]\<rparr>, \<lparr>amount = NaN, row = [Float NaN]\<rparr>]\<rparr> \<noteq>
   \<lparr>names = [''amount''], txns = [\<lparr>amount = Fin \<lparr>sign = False, digs = ''5'', decpt = 1\<rparr>, row = [Float (Fin \<lparr>sign = False, digs = ''5'', decpt = 1\<rparr>)]\<rparr>, \<lparr>amount = Fin \<lparr>sign = False, digs = ''1'', decpt = - 4\<rparr>, row = [Float (Fin \<lparr>sign = False, digs = ''1'', decpt = - 4\<rparr>)]\<rparr>]\<rparr>"
  by code_simp

text \<open>
  C8. A table with no column named \<^verbatim>\<open>amount\<close> after the names are lower-cased and
  stripped fails with \<^verbatim>\<open>KeyError\<close>. The run then returns no result: it ends in that
  error when the Opera table is the one without the column, and also when the POS table
  is and the Opera table was normalised; the only other end is the error of the Opera
  table.
\<close>

theorem missing_amount_column:
  "(''amount'' \<notin> set (map (\<lambda>c. strip (lower c)) (columns df)) \<longrightarrow>
      normalize_frame df = Inl KeyError) \<and>
   (normalize_frame opera_df = Inl KeyError \<longrightarrow>
      reconcile_transactions opera_df pos_df = Inl KeyError) \<and>
   (normalize_frame pos_df = Inl KeyError \<longrightarrow>
      reconcile_transactions opera_df pos_df = Inl KeyError \<or>
      reconcile_transactions opera_df pos_df = Inl AttributeError)"
proof (intro conjI impI)
  assume "''amount'' \<notin> set (map (\<lambda>c. strip (lower c)) (columns df))"
  then have "positions ''amount'' (map (\<lambda>c. strip (lower c)) (columns df)) = []"
    by (simp add: positions_empty)
  then show "normalize_frame df = Inl KeyError"
    by (simp add: normalize_frame_def)
next
  assume "normalize_frame opera_df = Inl KeyError"
  then show "reconcile_transactions opera_df pos_df = Inl KeyError"
    by (simp add: reconcile_transactions_def)
next
  assume pos: "normalize_frame pos_df = Inl KeyError"
  have "e = KeyError \<or> e = AttributeError" if "normalize_frame opera_df = Inl e" for e
    using that by (auto simp: normalize_frame_def Let_def split: list.splits)
  with pos show "reconcile_transactions opera_df pos_df = Inl KeyError \<or>
      reconcile_transactions opera_df pos_df = Inl AttributeError"
    by (cases "normalize_frame opera_df") (simp_all add: reconcile_transactions_def)
qed

theorem missing_amount_column_witness:
  "normalize_frame
     \<lparr>columns = [''Total'', ''id''], rows = [[Float (Fin \<lparr>sign = False, digs = ''5'', decpt = 2\<rparr>), Str ''A1'']]\<rparr> = Inl KeyError \<and>
   reconcile_transactions
     \<lparr>columns = [''Total'', ''id''], rows = [[Float (Fin \<lparr>sign = False, digs = ''5'', decpt = 2\<rparr>), Str ''A1'']]\<rparr>
     \<lparr>columns = [''Amount'', ''id''], rows = [[Float (Fin \<lparr>sign = False, digs = ''5'', decpt = 2\<rparr>), Str ''B1'']]\<rparr> = Inl KeyError \<and>
   reconcile_transactions
     \<lparr>columns = [''Amount'', ''id''], rows = [[Float (Fin \<lparr>sign = False, digs = ''5'', decpt = 2\<rparr>), Str ''B1'']]\<rparr>
     \<lparr>columns = [''Total'', ''id''], rows = [[Float (Fin \<lparr>sign = False, digs = ''5'', decpt = 2\<rparr>), Str ''A1'']]\<rparr> = Inl KeyError"
  (is "?table \<and> ?left \<and> ?right")
proof -
  have "''amount'' \<notin> set (map (\<lambda>c. strip (lower c))
      (columns \<lparr>columns = [''Total'', ''id''], rows = [[Float (Fin \<lparr>sign = False, digs = ''5'', decpt = 2\<rparr>), Str ''A1'']]\<rparr>))"
    by code_simp
  with missing_amount_column [where df = "\<lparr>columns = [''Total'', ''id''], rows = [[Float (Fin \<lparr>sign = False, digs = ''5'', decpt = 2\<rparr>), Str ''A1'']]\<rparr>"]
  have table: ?table by blast
  with missing_amount_column [where opera_df = "\<lparr>columns = [''Total'', ''id''], rows = [[Float (Fin \<lparr>sign = False, digs = ''5'', decpt = 2\<rparr>), Str ''A1'']]\<rparr>"
      and pos_df = "\<lparr>columns = [''Amount'', ''id''], rows = [[Float (Fin \<lparr>sign = False, digs = ''5'', decpt = 2\<rparr>), Str ''B1'']]\<rparr>"]
  have left: ?left by blast
  have "reconcile_transactions
     \<lparr>columns = [''Amount'', ''id''], rows = [[Float (Fin \<lparr>sign = False, digs = ''5'', decpt = 2\<rparr>), Str ''B1'']]\<rparr>
     \<lparr>columns = [''Total'', ''id''], rows = [[Float (Fin \<lparr>sign = False, digs = ''5'', decpt = 2\<rparr>), Str ''A1'']]\<rparr> \<noteq> Inl AttributeError"
    by code_simp
  with table missing_amount_column [where pos_df = "\<lparr>columns = [''Total'', ''id''], rows = [[Float (Fin \<lparr>sign = False, digs = ''5'', decpt = 2\<rparr>), Str ''A1'']]\<rparr>"
      and opera_df = "\<lparr>columns = [''Amount'', ''id''], rows = [[Float (Fin \<lparr>sign = False, digs = ''5'', decpt = 2\<rparr>), Str ''B1'']]\<rparr>"]
  have ?right by blast
  with table left show ?thesis by blast
qed

end
